theory Spec2Isabelle
  imports Complex_Main
begin

section \<open>Bedrock monitor: the anomaly detector of bedrock\_monitor.py\<close>

text \<open>
  The development embeds \<^verbatim>\<open>BedrockMonitor\<close> (python-scripts/bedrock\_monitor.py):
  \<^verbatim>\<open>_get_cloudwatch_metric\<close>, \<^verbatim>\<open>collect_usage_metrics\<close>, \<^verbatim>\<open>detect_anomalies\<close>,
  \<^verbatim>\<open>send_alert\<close> and \<^verbatim>\<open>lambda_handler\<close>.

  Conventions of the embedding.
  \<^item> Python floats are modelled by \<open>real\<close>: rounding, infinities and NaN are outside
    the model. \<^verbatim>\<open>statistics.mean\<close> and \<^verbatim>\<open>statistics.stdev\<close> are the exact mean and
    the sample standard deviation.
  \<^item> A naive \<^verbatim>\<open>datetime\<close> is an \<open>int\<close>, the microseconds elapsed since midnight of
    some day; \<^verbatim>\<open>timedelta\<close> arithmetic is integer arithmetic. The clock stays in the
    range where \<^verbatim>\<open>datetime\<close> arithmetic does not overflow.
  \<^item> The AWS clients are oracles: a pure function from the request to the exception
    raised or the response returned. \<^verbatim>\<open>datetime.utcnow()\<close> is read from parameters,
    one per call in the source.
  \<^item> Every \<^verbatim>\<open>try/except Exception\<close> is a case distinction on a sum type; the
    \<^verbatim>\<open>logger\<close> calls are collected in a list that each function returns with its
    value.
\<close>

subsection \<open>Exceptions, log records, time\<close>

datatype py_exception =
    ClientError string
  | KeyError string
  | StatisticsError string
  | ZeroDivisionError string

text \<open>\<^verbatim>\<open>str(e)\<close>: the message; a \<^verbatim>\<open>KeyError\<close> prints the repr of its key.\<close>

fun str_exception :: "py_exception \<Rightarrow> string" where
  "str_exception (ClientError m) = m"
| "str_exception (KeyError k) = [CHR 0x27] @ k @ [CHR 0x27]"
| "str_exception (StatisticsError m) = m"
| "str_exception (ZeroDivisionError m) = m"

datatype log_level = INFO | WARNING | ERROR

type_synonym log = "(log_level \<times> string) list"

type_synonym time = int

definition hours :: "int \<Rightarrow> int" where
  "hours n = n * 3600000000"

definition days :: "int \<Rightarrow> int" where
  "days n = n * 86400000000"

text \<open>\<^verbatim>\<open>t.replace(minute=0, second=0, microsecond=0)\<close>\<close>

definition replace_hour_start :: "time \<Rightarrow> time" where
  "replace_hour_start t = t - t mod hours 1"

subsection \<open>Float division and the statistics module\<close>

text \<open>\<^verbatim>\<open>a / b\<close> on floats raises on a zero divisor.\<close>

definition py_truediv :: "real \<Rightarrow> real \<Rightarrow> py_exception + real" where
  "py_truediv a b =
     (if b = 0 then Inl (ZeroDivisionError ''float division by zero'') else Inr (a / b))"

text \<open>The mean and the sample standard deviation of a list.\<close>

definition mean_of :: "real list \<Rightarrow> real" where
  "mean_of data = sum_list data / real (length data)"

definition stdev_of :: "real list \<Rightarrow> real" where
  "stdev_of data =
     sqrt (sum_list (map (\<lambda>x. (x - mean_of data)\<^sup>2) data) / real (length data - 1))"

text \<open>
  \<^verbatim>\<open>statistics.mean\<close> raises on no data, \<^verbatim>\<open>statistics.stdev\<close> on fewer than two
  points.
\<close>

definition statistics_mean :: "real list \<Rightarrow> py_exception + real" where
  "statistics_mean data =
     (if data = [] then Inl (StatisticsError ''mean requires at least one data point'')
      else Inr (mean_of data))"

definition statistics_stdev :: "real list \<Rightarrow> py_exception + real" where
  "statistics_stdev data =
     (if length data < 2
      then Inl (StatisticsError ''variance requires at least two data points'')
      else Inr (stdev_of data))"

subsection \<open>The CloudWatch client and the monitor object\<close>

text \<open>
  A datapoint is a dict from the statistic's name to its value (\<^verbatim>\<open>point['Sum']\<close>); a
  response is the value under \<^verbatim>\<open>'Datapoints'\<close>, if the key is there. The oracle takes
  Namespace, MetricName, StartTime, EndTime, Period and the requested statistic.
\<close>

type_synonym datapoint = "string \<rightharpoonup> real"

type_synonym metric_source =
  "string \<Rightarrow> string \<Rightarrow> time \<Rightarrow> time \<Rightarrow> nat \<Rightarrow> string \<Rightarrow> py_exception + datapoint list option"

text \<open>
  \<^verbatim>\<open>sns_client.publish(TopicArn, Message, Subject)\<close> and
  \<^verbatim>\<open>cloudwatch_client.put_metric_data(Namespace, MetricData)\<close>: the exception raised,
  if any.
\<close>

type_synonym sns_sink = "string \<Rightarrow> string \<Rightarrow> string \<Rightarrow> py_exception option"

record metric_datum =
  MetricName :: string
  Value :: real
  Unit :: string
  Dimensions :: "(string \<times> string) list"

type_synonym metric_sink = "string \<Rightarrow> metric_datum list \<Rightarrow> py_exception option"

text \<open>
  The monitor object: the operations of its clients that the embedded methods call, and
  the two environment variables. \<open>sns_topic_arn\<close> is \<open>None\<close> when the variable is unset.
\<close>

record BedrockMonitor =
  region_name :: string
  get_metric_statistics :: metric_source
  put_metric_data :: metric_sink
  sns_publish :: sns_sink
  environment :: string
  sns_topic_arn :: "string option"

record metrics =
  total_invocations :: real
  total_errors :: real
  total_input_tokens :: real
  total_output_tokens :: real
  avg_duration :: real
  model_usage :: "string \<Rightarrow> int"
  error_distribution :: "string \<Rightarrow> int"
  hourly_usage :: "string \<Rightarrow> int"
  success_rate :: "real option"

record anomaly =
  type :: string
  current_value :: real
  threshold :: real
  baseline_mean :: real
  timestamp :: time
  severity :: string

subsection \<open>\_get\_cloudwatch\_metric and collect\_usage\_metrics\<close>

definition get_cloudwatch_metric ::
  "BedrockMonitor \<Rightarrow> string \<Rightarrow> string \<Rightarrow> time \<Rightarrow> time \<Rightarrow> string \<Rightarrow> datapoint list \<times> log" where
  "get_cloudwatch_metric self namespace metric_name start_time end_time statistic =
     (case get_metric_statistics self namespace metric_name start_time end_time 300 statistic of
        Inl e \<Rightarrow>
          ([], [(ERROR, ''Error getting CloudWatch metric '' @ metric_name @ '': '' @ str_exception e)])
      | Inr response \<Rightarrow> (case response of None \<Rightarrow> ([], []) | Some datapoints \<Rightarrow> (datapoints, [])))"

text \<open>\<^verbatim>\<open>sum(point[k] for point in points)\<close>: the first missing key raises.\<close>

fun sum_points :: "string \<Rightarrow> datapoint list \<Rightarrow> py_exception + real" where
  "sum_points k [] = Inr 0"
| "sum_points k (point # points) =
     (case point k of
        None \<Rightarrow> Inl (KeyError k)
      | Some v \<Rightarrow> (case sum_points k points of Inl e \<Rightarrow> Inl e | Inr s \<Rightarrow> Inr (v + s)))"

text \<open>\<^verbatim>\<open>statistics.mean(point[k] for point in points)\<close>\<close>

fun values_of :: "string \<Rightarrow> datapoint list \<Rightarrow> py_exception + real list" where
  "values_of k [] = Inr []"
| "values_of k (point # points) =
     (case point k of
        None \<Rightarrow> Inl (KeyError k)
      | Some v \<Rightarrow> (case values_of k points of Inl e \<Rightarrow> Inl e | Inr vs \<Rightarrow> Inr (v # vs)))"

definition mean_points :: "string \<Rightarrow> datapoint list \<Rightarrow> py_exception + real" where
  "mean_points k points =
     (case values_of k points of Inl e \<Rightarrow> Inl e | Inr vs \<Rightarrow> statistics_mean vs)"

definition initial_metrics :: metrics where
  "initial_metrics =
     \<lparr> total_invocations = 0, total_errors = 0, total_input_tokens = 0,
       total_output_tokens = 0, avg_duration = 0, model_usage = (\<lambda>_. 0),
       error_distribution = (\<lambda>_. 0), hourly_usage = (\<lambda>_. 0), success_rate = None \<rparr>"

text \<open>Lines 112 to 119: the success rate, with the division that can raise.\<close>

definition calculate_success_rate :: "metrics \<Rightarrow> py_exception + metrics" where
  "calculate_success_rate metrics =
     (if total_invocations metrics > 0 then
        (case py_truediv (total_invocations metrics - total_errors metrics)
                (total_invocations metrics) of
           Inl e \<Rightarrow> Inl e
         | Inr q \<Rightarrow> Inr (metrics\<lparr>success_rate := Some (q * 100)\<rparr>))
      else Inr (metrics\<lparr>success_rate := Some 0\<rparr>))"

text \<open>
  The body of the \<^verbatim>\<open>try\<close> of \<^verbatim>\<open>collect_usage_metrics\<close>: the dict as it stands when
  the body ends or raises, the log of the fetches, and the exception raised, if any.
\<close>

definition collect_usage_metrics_try ::
  "BedrockMonitor \<Rightarrow> time \<Rightarrow> time \<Rightarrow> metrics \<times> log \<times> py_exception option" where
  "collect_usage_metrics_try self start_time end_time =
     (let metrics = initial_metrics;
          (invocations, l1) =
             get_cloudwatch_metric self ''AWS/Bedrock'' ''Invocations'' start_time end_time ''Sum''
      in (case sum_points ''Sum'' invocations of
           Inl e \<Rightarrow> (metrics, l1, Some e)
         | Inr s1 \<Rightarrow>
     (let metrics = metrics\<lparr>total_invocations := s1\<rparr>;
          (errors, l2) =
             get_cloudwatch_metric self ''AWS/Bedrock'' ''Errors'' start_time end_time ''Sum''
      in (case sum_points ''Sum'' errors of
           Inl e \<Rightarrow> (metrics, l1 @ l2, Some e)
         | Inr s2 \<Rightarrow>
     (let metrics = metrics\<lparr>total_errors := s2\<rparr>;
          (input_tokens, l3) =
             get_cloudwatch_metric self ''AWS/Bedrock'' ''InputTokens'' start_time end_time ''Sum''
      in (case sum_points ''Sum'' input_tokens of
           Inl e \<Rightarrow> (metrics, l1 @ l2 @ l3, Some e)
         | Inr s3 \<Rightarrow>
     (let metrics = metrics\<lparr>total_input_tokens := s3\<rparr>;
          (output_tokens, l4) =
             get_cloudwatch_metric self ''AWS/Bedrock'' ''OutputTokens'' start_time end_time ''Sum''
      in (case sum_points ''Sum'' output_tokens of
           Inl e \<Rightarrow> (metrics, l1 @ l2 @ l3 @ l4, Some e)
         | Inr s4 \<Rightarrow>
     (let metrics = metrics\<lparr>total_output_tokens := s4\<rparr>;
          (duration, l5) =
             get_cloudwatch_metric self ''AWS/Bedrock'' ''Duration'' start_time end_time ''Average'';
          lg = l1 @ l2 @ l3 @ l4 @ l5
      in (case (if duration \<noteq> [] then
                  (case mean_points ''Average'' duration of
                     Inl e \<Rightarrow> Inl e
                   | Inr a \<Rightarrow> Inr (metrics\<lparr>avg_duration := a\<rparr>))
                else Inr metrics) of
           Inl e \<Rightarrow> (metrics, lg, Some e)
         | Inr metrics \<Rightarrow>
             (case calculate_success_rate metrics of
                Inl e \<Rightarrow> (metrics, lg, Some e)
              | Inr metrics \<Rightarrow> (metrics, lg, None))))))))))))"

definition collect_usage_metrics :: "BedrockMonitor \<Rightarrow> time \<Rightarrow> time \<Rightarrow> metrics \<times> log" where
  "collect_usage_metrics self start_time end_time =
     (case collect_usage_metrics_try self start_time end_time of
        (metrics, lg, None) \<Rightarrow> (metrics, lg)
      | (metrics, lg, Some e) \<Rightarrow>
          (metrics, lg @ [(ERROR, ''Error collecting usage metrics: '' @ str_exception e)]))"

subsection \<open>detect\_anomalies\<close>

text \<open>Lines 246 to 252: one sample of \<^verbatim>\<open>total_invocations\<close> per hourly window.\<close>

function baseline_loop ::
  "BedrockMonitor \<Rightarrow> time \<Rightarrow> time \<Rightarrow> real list \<Rightarrow> log \<Rightarrow> real list \<times> log" where
  "baseline_loop self current_time end_time baseline_metrics lg =
     (if current_time < end_time then
        (let next_time = current_time + hours 1;
             (hourly_metrics, l) = collect_usage_metrics self current_time next_time
         in baseline_loop self next_time end_time
              (baseline_metrics @ [total_invocations hourly_metrics]) (lg @ l))
      else (baseline_metrics, lg))"
  by pat_completeness auto
termination
  by (relation "measure (\<lambda>(self, c, e, b, l). nat (e - c))") (auto simp: hours_def)

text \<open>
  Lines 284 to 291: the error rates of the windows that had invocations; \<open>bound\<close> is
  \<^verbatim>\<open>end_time - timedelta(hours=1)\<close>. A raised exception ends the loop.
\<close>

function error_rate_loop ::
  "BedrockMonitor \<Rightarrow> time \<Rightarrow> time \<Rightarrow> real list \<Rightarrow> log
     \<Rightarrow> real list \<times> log \<times> py_exception option" where
  "error_rate_loop self current_time bound baseline_error_rates lg =
     (if current_time < bound then
        (let next_time = current_time + hours 1;
             (hourly_metrics, l) = collect_usage_metrics self current_time next_time
         in if total_invocations hourly_metrics > 0 then
              (case py_truediv (total_errors hourly_metrics) (total_invocations hourly_metrics) of
                 Inl e \<Rightarrow> (baseline_error_rates, lg @ l, Some e)
               | Inr q \<Rightarrow>
                   error_rate_loop self next_time bound (baseline_error_rates @ [q * 100]) (lg @ l))
            else error_rate_loop self next_time bound baseline_error_rates (lg @ l))
      else (baseline_error_rates, lg, None))"
  by pat_completeness auto
termination
  by (relation "measure (\<lambda>(self, c, e, b, l). nat (e - c))") (auto simp: hours_def)

text \<open>
  Lines 268 to 276: the check of the current hour against the threshold. The locals
  \<^verbatim>\<open>threshold\<close> and \<^verbatim>\<open>baseline_mean\<close> carry a prime, the plain names being the
  fields of the anomaly record.
\<close>

definition check_high_usage ::
  "metrics \<Rightarrow> real \<Rightarrow> real \<Rightarrow> time \<Rightarrow> anomaly list \<Rightarrow> anomaly list" where
  "check_high_usage current_metrics threshold' baseline_mean' current_hour_start anomalies =
     (if total_invocations current_metrics > threshold' then
        anomalies @
          [\<lparr> type = ''high_usage'',
             current_value = total_invocations current_metrics,
             threshold = threshold',
             baseline_mean = baseline_mean',
             timestamp = current_hour_start,
             severity = (if total_invocations current_metrics > threshold' * 1.5
                         then ''high'' else ''medium'') \<rparr>]
      else anomalies)"

text \<open>
  Lines 279 to 306: the check of the error rate. The result is the list of anomalies,
  the log and the exception raised, if any.
\<close>

definition check_error_rate ::
  "BedrockMonitor \<Rightarrow> real \<Rightarrow> time \<Rightarrow> time \<Rightarrow> metrics \<Rightarrow> time \<Rightarrow> anomaly list \<Rightarrow> log
     \<Rightarrow> anomaly list \<times> log \<times> py_exception option" where
  "check_error_rate self threshold_multiplier start_time end_time current_metrics
       current_hour_start anomalies lg =
     (if total_invocations current_metrics > 0 then
        (case py_truediv (total_errors current_metrics) (total_invocations current_metrics) of
           Inl e \<Rightarrow> (anomalies, lg, Some e)
         | Inr q \<Rightarrow>
        (let current_error_rate = q * 100;
             (baseline_error_rates, lg, raised) =
                error_rate_loop self start_time (end_time - hours 1) [] lg
         in (case raised of
               Some e \<Rightarrow> (anomalies, lg, Some e)
             | None \<Rightarrow>
           (if baseline_error_rates \<noteq> [] then
              (case statistics_mean baseline_error_rates of
                 Inl e \<Rightarrow> (anomalies, lg, Some e)
               | Inr baseline_error_mean \<Rightarrow>
              (case (if length baseline_error_rates > 1
                     then statistics_stdev baseline_error_rates else Inr 0) of
                 Inl e \<Rightarrow> (anomalies, lg, Some e)
               | Inr baseline_error_stdev \<Rightarrow>
              (let error_threshold =
                     baseline_error_mean + threshold_multiplier * baseline_error_stdev
               in if current_error_rate > error_threshold \<and> current_error_rate > 5 then
                    (anomalies @
                       [\<lparr> type = ''high_error_rate'',
                          current_value = current_error_rate,
                          threshold = error_threshold,
                          baseline_mean = baseline_error_mean,
                          timestamp = current_hour_start,
                          severity = (if current_error_rate > error_threshold * 1.5
                                      then ''high'' else ''medium'') \<rparr>],
                     lg, None)
                  else (anomalies, lg, None))))
            else (anomalies, lg, None)))))
      else (anomalies, lg, None))"

text \<open>
  Lines 254 to 306: the body of the \<^verbatim>\<open>try\<close> once \<^verbatim>\<open>baseline_metrics\<close> is
  collected; \<open>now\<close> is the clock read at line 264.
\<close>

definition detect_anomalies_after_baseline ::
  "BedrockMonitor \<Rightarrow> time \<Rightarrow> real \<Rightarrow> time \<Rightarrow> time \<Rightarrow> real list \<Rightarrow> log
     \<Rightarrow> anomaly list \<times> log \<times> py_exception option" where
  "detect_anomalies_after_baseline self now threshold_multiplier start_time end_time
       baseline_metrics lg =
     (let anomalies = [] in
      if length baseline_metrics < 24 then
        (anomalies, lg @ [(WARNING, ''Insufficient data for anomaly detection'')], None)
      else
        (case statistics_mean baseline_metrics of
           Inl e \<Rightarrow> (anomalies, lg, Some e)
         | Inr baseline_mean' \<Rightarrow>
        (case statistics_stdev baseline_metrics of
           Inl e \<Rightarrow> (anomalies, lg, Some e)
         | Inr baseline_stdev \<Rightarrow>
        (let threshold' = baseline_mean' + threshold_multiplier * baseline_stdev;
             current_hour_start = replace_hour_start now;
             current_hour_end = current_hour_start + hours 1;
             (current_metrics, l) =
                collect_usage_metrics self current_hour_start current_hour_end;
             anomalies =
                check_high_usage current_metrics threshold' baseline_mean' current_hour_start
                  anomalies
         in check_error_rate self threshold_multiplier start_time end_time current_metrics
              current_hour_start anomalies (lg @ l)))))"

text \<open>Lines 308 to 311: the handler logs the exception and the list so far is returned.\<close>

fun detect_anomalies_except ::
  "anomaly list \<times> log \<times> py_exception option \<Rightarrow> anomaly list \<times> log" where
  "detect_anomalies_except (anomalies, lg, None) = (anomalies, lg)"
| "detect_anomalies_except (anomalies, lg, Some e) =
     (anomalies, lg @ [(ERROR, ''Error detecting anomalies: '' @ str_exception e)])"

text \<open>
  Lines 254 to 311: what \<^verbatim>\<open>detect_anomalies\<close> returns once \<^verbatim>\<open>baseline_metrics\<close>
  is collected, as a function of that list.
\<close>

definition detect_anomalies_from_baseline ::
  "BedrockMonitor \<Rightarrow> time \<Rightarrow> real \<Rightarrow> time \<Rightarrow> time \<Rightarrow> real list \<Rightarrow> log
     \<Rightarrow> anomaly list \<times> log" where
  "detect_anomalies_from_baseline self now threshold_multiplier start_time end_time
       baseline_metrics lg =
     detect_anomalies_except
       (detect_anomalies_after_baseline self now threshold_multiplier start_time end_time
          baseline_metrics lg)"

text \<open>
  \<^verbatim>\<open>detect_anomalies\<close>; \<open>now1\<close> is the clock read at line 242 and \<open>now2\<close> the one
  read at line 264.
\<close>

definition detect_anomalies ::
  "BedrockMonitor \<Rightarrow> time \<Rightarrow> time \<Rightarrow> real \<Rightarrow> anomaly list \<times> log" where
  "detect_anomalies self now1 now2 threshold_multiplier =
     (let end_time = now1;
          start_time = end_time - days 7;
          (baseline_metrics, lg) = baseline_loop self start_time end_time [] []
      in detect_anomalies_from_baseline self now2 threshold_multiplier start_time end_time
           baseline_metrics lg)"

subsection \<open>send\_alert and publish\_custom\_metrics\<close>

text \<open>
  A request that reached the SNS client: TopicArn, Message, Subject. \<^verbatim>\<open>send_alert\<close>
  returns its boolean, the requests it made and its log.
\<close>

type_synonym sns_request = "string \<times> string \<times> string"

definition send_alert :: "BedrockMonitor \<Rightarrow> string \<Rightarrow> string \<Rightarrow> bool \<times> sns_request list \<times> log" where
  "send_alert self message subject =
     (if sns_topic_arn self = None \<or> sns_topic_arn self = Some [] then
        (False, [], [(WARNING, ''SNS topic ARN not configured, cannot send alert'')])
      else
        (case sns_publish self (the (sns_topic_arn self)) message subject of
           None \<Rightarrow>
             (True, [(the (sns_topic_arn self), message, subject)],
              [(INFO, ''Alert sent successfully: '' @ subject)])
         | Some e \<Rightarrow>
             (False, [(the (sns_topic_arn self), message, subject)],
              [(ERROR, ''Error sending alert: '' @ str_exception e)])))"

text \<open>
  The text of a number (\<^verbatim>\<open>str\<close>, \<^verbatim>\<open>:.2f\<close>, an f-string field) is not modelled: the
  renderers are parameters.
\<close>

record renderers =
  str_int :: "nat \<Rightarrow> string"
  str_float :: "real \<Rightarrow> string"
  format_2f :: "real \<Rightarrow> string"

text \<open>
  The entries of the metrics dict whose value is an \<^verbatim>\<open>int\<close> or a \<^verbatim>\<open>float\<close>, in
  insertion order; the three \<^verbatim>\<open>defaultdict\<close> entries are neither.
\<close>

definition numeric_items :: "metrics \<Rightarrow> (string \<times> real) list" where
  "numeric_items m =
     [(''total_invocations'', total_invocations m), (''total_errors'', total_errors m),
      (''total_input_tokens'', total_input_tokens m),
      (''total_output_tokens'', total_output_tokens m), (''avg_duration'', avg_duration m)]
     @ (case success_rate m of None \<Rightarrow> [] | Some r \<Rightarrow> [(''success_rate'', r)])"

text \<open>Lines 423 to 428: batches of 20; a raised exception ends the loop.\<close>

function put_batches ::
  "BedrockMonitor \<Rightarrow> metric_datum list \<Rightarrow> (string \<times> metric_datum list) list \<times> py_exception option"
  where
  "put_batches self metric_data =
     (if metric_data = [] then ([], None)
      else (let batch = take 20 metric_data in
            case put_metric_data self ''Custom/Bedrock'' batch of
              Some e \<Rightarrow> ([(''Custom/Bedrock'', batch)], Some e)
            | None \<Rightarrow>
                (let (sent, raised) = put_batches self (drop 20 metric_data)
                 in ((''Custom/Bedrock'', batch) # sent, raised))))"
  by pat_completeness auto
termination
  by (relation "measure (\<lambda>(self, d). length d)") auto

definition publish_custom_metrics ::
  "BedrockMonitor \<Rightarrow> renderers \<Rightarrow> metrics
     \<Rightarrow> bool \<times> (string \<times> metric_datum list) list \<times> log" where
  "publish_custom_metrics self r metrics =
     (let metric_data =
            map (\<lambda>(metric_name, v).
                   \<lparr> MetricName = metric_name, Value = v, Unit = ''Count'',
                     Dimensions = [(''Environment'', environment self)] \<rparr>)
                (numeric_items metrics);
          (sent, raised) = put_batches self metric_data
      in case raised of
           None \<Rightarrow>
             (True, sent,
              [(INFO, ''Published '' @ str_int r (length metric_data)
                      @ '' custom metrics to CloudWatch'')])
         | Some e \<Rightarrow>
             (False, sent, [(ERROR, ''Error publishing custom metrics: '' @ str_exception e)]))"

subsection \<open>lambda\_handler\<close>

text \<open>
  What \<^verbatim>\<open>lambda_handler\<close> meets outside the embedded methods: the constructor
  \<^verbatim>\<open>BedrockMonitor()\<close>, which returns the monitor or raises; the clock at line 445
  and the two clocks read by \<^verbatim>\<open>detect_anomalies\<close>; the renderers; and the outcome of
  \<^verbatim>\<open>analyze_user_behavior\<close>, which is not embedded: \<open>None\<close> when its polling loop
  never ends, otherwise the \<^verbatim>\<open>'unique_users'\<close> entry of the dict it returns, if the
  dict has one. Its log records are not part of the log below.
\<close>

record lambda_world =
  construct_monitor :: "py_exception + BedrockMonitor"
  utcnow_handler :: time
  utcnow_detect1 :: time
  utcnow_detect2 :: time
  render :: renderers
  analyze_user_behavior :: "nat option option"

datatype body =
    Completed string nat nat nat
  | Failed string

record response =
  statusCode :: nat
  body :: body

text \<open>Lines 456 to 459: the text of the alert.\<close>

definition alert_message :: "renderers \<Rightarrow> anomaly list \<Rightarrow> string" where
  "alert_message r anomalies =
     ''Detected '' @ str_int r (length anomalies) @ '' anomalies in Bedrock usage:'' @
     [CHR 0x0A, CHR 0x0A] @
     concat (map (\<lambda>a. ''- '' @ type a @ '': Current value '' @ str_float r (current_value a)
                        @ '', '' @ ''Threshold: '' @ format_2f r (threshold a)
                        @ '', Severity: '' @ severity a @ [CHR 0x0A]) anomalies)"

text \<open>\<^verbatim>\<open>len(metrics)\<close>: the eight initial keys and \<^verbatim>\<open>'success_rate'\<close> once it is set.\<close>

definition len_metrics :: "metrics \<Rightarrow> nat" where
  "len_metrics m = (if success_rate m = None then 8 else 9)"

text \<open>
  \<^verbatim>\<open>lambda_handler\<close>: the response (\<open>None\<close> when the handler never returns), the
  list of anomalies it detected, the requests made to SNS, and the log.
\<close>

definition lambda_handler ::
  "lambda_world \<Rightarrow> response option \<times> anomaly list \<times> sns_request list \<times> log" where
  "lambda_handler w =
     (case construct_monitor w of
        Inl e \<Rightarrow>
          (Some \<lparr> statusCode = 500, body = Failed (str_exception e) \<rparr>, [], [],
           [(ERROR, ''Error in lambda handler: '' @ str_exception e)])
      | Inr monitor \<Rightarrow>
     (let end_time = utcnow_handler w;
          start_time = end_time - hours 1;
          (metrics, l1) = collect_usage_metrics monitor start_time end_time;
          (_, _, l2) = publish_custom_metrics monitor (render w) metrics;
          (anomalies, l3) =
             detect_anomalies monitor (utcnow_detect1 w) (utcnow_detect2 w) 2.0;
          (requests, l4) =
             (if anomalies \<noteq> [] then
                (let (_, requests, l) =
                       send_alert monitor (alert_message (render w) anomalies)
                         ''Bedrock Usage Anomaly Detected''
                 in (requests, l))
              else ([], []));
          lg = l1 @ l2 @ l3 @ l4
      in case analyze_user_behavior w of
           None \<Rightarrow> (None, anomalies, requests, lg)
         | Some user_behavior \<Rightarrow>
             (Some \<lparr> statusCode = 200,
                     body = Completed ''Monitoring completed successfully''
                              (len_metrics metrics) (length anomalies)
                              (case user_behavior of None \<Rightarrow> 0 | Some n \<Rightarrow> n) \<rparr>,
              anomalies, requests, lg)))"

subsection \<open>Notions used in the statements\<close>

text \<open>
  The metrics and the log of the hourly window that starts at \<open>t\<close>, as the two loops
  of \<^verbatim>\<open>detect_anomalies\<close> collect them.
\<close>

definition window_metrics :: "BedrockMonitor \<Rightarrow> time \<Rightarrow> metrics" where
  "window_metrics self t = fst (collect_usage_metrics self t (t + hours 1))"

definition window_log :: "BedrockMonitor \<Rightarrow> time \<Rightarrow> log" where
  "window_log self t = snd (collect_usage_metrics self t (t + hours 1))"

text \<open>Lines 288 to 290: what one window adds to \<^verbatim>\<open>baseline_error_rates\<close>.\<close>

definition window_error_rate :: "BedrockMonitor \<Rightarrow> time \<Rightarrow> real list" where
  "window_error_rate self t =
     (if total_invocations (window_metrics self t) > 0
      then [total_errors (window_metrics self t) / total_invocations (window_metrics self t) * 100]
      else [])"

text \<open>The list \<^verbatim>\<open>baseline_error_rates\<close> that the loop of lines 284 to 291 builds.\<close>

definition baseline_error_rates :: "BedrockMonitor \<Rightarrow> time \<Rightarrow> time \<Rightarrow> real list" where
  "baseline_error_rates self start_time end_time =
     fst (error_rate_loop self start_time (end_time - hours 1) [] [])"

text \<open>Line 295: the deviation of the error rates, 0 for a single rate.\<close>

definition error_stdev :: "real list \<Rightarrow> real" where
  "error_stdev rates = (if length rates > 1 then stdev_of rates else 0)"

text \<open>Line 280: the error rate of a window, in percent.\<close>

definition error_rate_of :: "metrics \<Rightarrow> real" where
  "error_rate_of m = total_errors m / total_invocations m * 100"

text \<open>Line 296: \<^verbatim>\<open>error_threshold\<close>.\<close>

definition error_threshold_of :: "BedrockMonitor \<Rightarrow> real \<Rightarrow> time \<Rightarrow> time \<Rightarrow> real" where
  "error_threshold_of self threshold_multiplier start_time end_time =
     mean_of (baseline_error_rates self start_time end_time)
       + threshold_multiplier * error_stdev (baseline_error_rates self start_time end_time)"

text \<open>What lines 279 to 306 append to \<^verbatim>\<open>anomalies\<close>: nothing or one record.\<close>

definition error_rate_anomalies ::
  "BedrockMonitor \<Rightarrow> real \<Rightarrow> time \<Rightarrow> time \<Rightarrow> metrics \<Rightarrow> time \<Rightarrow> anomaly list" where
  "error_rate_anomalies self threshold_multiplier start_time end_time current_metrics
       current_hour_start =
     (if 0 < total_invocations current_metrics
           \<and> baseline_error_rates self start_time end_time \<noteq> []
           \<and> error_rate_of current_metrics
                > error_threshold_of self threshold_multiplier start_time end_time
           \<and> error_rate_of current_metrics > 5
      then [\<lparr> type = ''high_error_rate'',
               current_value = error_rate_of current_metrics,
               threshold = error_threshold_of self threshold_multiplier start_time end_time,
               baseline_mean = mean_of (baseline_error_rates self start_time end_time),
               timestamp = current_hour_start,
               severity =
                 (if error_rate_of current_metrics
                       > error_threshold_of self threshold_multiplier start_time end_time * 1.5
                  then ''high'' else ''medium'') \<rparr>]
      else [])"


subsection \<open>Metric sources of the examples\<close>

text \<open>
  A monitor over a given metric source, with no SNS topic. A table source answers the
  \<^verbatim>\<open>Invocations\<close> and \<^verbatim>\<open>Errors\<close> queries of a window from two tables indexed by
  the start of the window (one datapoint carrying the requested statistic, or none) and
  has no datapoint for the other metrics; the failing source raises on every query.
\<close>

definition monitor_of :: "metric_source \<Rightarrow> BedrockMonitor" where
  "monitor_of source =
     \<lparr> region_name = ''us-east-1'', get_metric_statistics = source,
       put_metric_data = (\<lambda>_ _. None), sns_publish = (\<lambda>_ _ _. None),
       environment = ''prod'', sns_topic_arn = None \<rparr>"

definition points_of :: "string \<Rightarrow> real option \<Rightarrow> datapoint list" where
  "points_of statistic v = (case v of None \<Rightarrow> [] | Some x \<Rightarrow> [[statistic \<mapsto> x]])"

definition table_source :: "(time \<Rightarrow> real option) \<Rightarrow> (time \<Rightarrow> real option) \<Rightarrow> metric_source" where
  "table_source invocations errors =
     (\<lambda>namespace metric_name start_time end_time period statistic.
        if metric_name = ''Invocations'' then Inr (Some (points_of statistic (invocations start_time)))
        else if metric_name = ''Errors'' then Inr (Some (points_of statistic (errors start_time)))
        else Inr (Some []))"

definition failing_source :: metric_source where
  "failing_source =
     (\<lambda>namespace metric_name start_time end_time period statistic.
        Inl (ClientError ''ThrottlingException''))"

definition value_or_zero :: "real option \<Rightarrow> real" where
  "value_or_zero v = (case v of None \<Rightarrow> 0 | Some x \<Rightarrow> x)"

text \<open>
  A source with a step: every window has \<open>base\<close> invocations and no error, but the window
  that starts at day 7, which has the given invocations and errors.
\<close>

definition step_monitor :: "real \<Rightarrow> real \<Rightarrow> real \<Rightarrow> BedrockMonitor" where
  "step_monitor base current_invocations current_errors =
     monitor_of (table_source (\<lambda>t. if t = days 7 then Some current_invocations else Some base)
                              (\<lambda>t. if t = days 7 then Some current_errors else Some 0))"

text \<open>
  A monitor that has the data of \<open>step_monitor 10 31 31\<close> in the week before day 7 and
  in the hour of day 7, other data at day 8, and another environment and topic.
\<close>

definition later_monitor :: BedrockMonitor where
  "later_monitor =
     monitor_of (table_source
       (\<lambda>t. if t = days 7 then Some 31 else if t = days 8 then Some 999 else Some 10)
       (\<lambda>t. if t = days 7 then Some 31 else Some 0))
     \<lparr> environment := ''dev'', sns_topic_arn := Some ''arn:aws:sns:us-east-1:000000000000:alerts'' \<rparr>"

text \<open>
  The step monitor with a topic and a given SNS client, an SNS client that refuses
  every request and one that accepts every request, and a world in which
  \<^verbatim>\<open>lambda_handler\<close> runs on that monitor at day 7.
\<close>

definition alerting_monitor :: "sns_sink \<Rightarrow> BedrockMonitor" where
  "alerting_monitor publish =
     (step_monitor 10 31 31)
       \<lparr> sns_publish := publish,
         sns_topic_arn := Some ''arn:aws:sns:us-east-1:000000000000:alerts'' \<rparr>"

definition refusing_sns :: sns_sink where
  "refusing_sns = (\<lambda>topic_arn message subject. Some (ClientError ''AuthorizationError''))"

definition accepting_sns :: sns_sink where
  "accepting_sns = (\<lambda>topic_arn message subject. None)"

definition plain_renderers :: renderers where
  "plain_renderers = \<lparr> str_int = (\<lambda>n. ''n''), str_float = (\<lambda>x. ''x''), format_2f = (\<lambda>x. ''x.xx'') \<rparr>"

definition alerting_world :: "sns_sink \<Rightarrow> lambda_world" where
  "alerting_world publish =
     \<lparr> construct_monitor = Inr (alerting_monitor publish),
       utcnow_handler = days 7, utcnow_detect1 = days 7, utcnow_detect2 = days 7,
       render = plain_renderers, analyze_user_behavior = Some (Some 3) \<rparr>"


text \<open>
  A sparse source: invocations only in the first window of the week (168000, no error)
  and in the hour of day 7 (10, with 5 errors).
\<close>

definition sparse_monitor :: BedrockMonitor where
  "sparse_monitor =
     monitor_of (table_source
       (\<lambda>t. if t = 0 then Some 168000 else if t = days 7 then Some 10 else None)
       (\<lambda>t. if t = days 7 then Some 5 else None))"

text \<open>Every window has 10 invocations; the first has no error, the others have 5.\<close>

definition rising_errors_monitor :: BedrockMonitor where
  "rising_errors_monitor =
     monitor_of (table_source (\<lambda>t. Some 10) (\<lambda>t. if t = 0 then Some 0 else Some 5))"

section \<open>The two loops\<close>

declare baseline_loop.simps [simp del] error_rate_loop.simps [simp del]

lemma upt_0_Suc_map: "[0..<Suc n] = 0 # map Suc [0..<n]"
  by (simp add: upt_conv_Cons map_Suc_upt del: upt_Suc)

lemma baseline_loop_step:
  "c < e \<Longrightarrow> baseline_loop self c e acc lg =
     baseline_loop self (c + hours 1) e
       (acc @ [total_invocations (window_metrics self c)]) (lg @ window_log self c)"
  by (subst baseline_loop.simps)
     (simp add: window_metrics_def window_log_def Let_def case_prod_beta)

lemma baseline_loop_stop: "\<not> c < e \<Longrightarrow> baseline_loop self c e acc lg = (acc, lg)"
  by (subst baseline_loop.simps) simp

lemma error_rate_loop_step:
  "c < b \<Longrightarrow> error_rate_loop self c b acc lg =
     error_rate_loop self (c + hours 1) b
       (acc @ window_error_rate self c) (lg @ window_log self c)"
  by (subst error_rate_loop.simps)
     (simp add: window_metrics_def window_log_def window_error_rate_def Let_def
        case_prod_beta py_truediv_def)

lemma error_rate_loop_stop: "\<not> c < b \<Longrightarrow> error_rate_loop self c b acc lg = (acc, lg, None)"
  by (subst error_rate_loop.simps) simp

lemma hours_Suc: "c + hours 1 + hours (int k) = c + hours (int (Suc k))"
  by (simp add: hours_def algebra_simps)

text \<open>A span of \<open>n\<close> hours gives \<open>n\<close> windows, one sample each.\<close>

lemma baseline_loop_unroll:
  "baseline_loop self c (c + hours (int n)) acc lg =
     (acc @ map (\<lambda>k. total_invocations (window_metrics self (c + hours (int k)))) [0..<n],
      lg @ concat (map (\<lambda>k. window_log self (c + hours (int k))) [0..<n]))"
proof (induction n arbitrary: c acc lg)
  case 0
  show ?case by (simp add: baseline_loop_stop hours_def)
next
  case (Suc n)
  have lt: "c < c + hours (int (Suc n))" by (simp add: hours_def)
  have "baseline_loop self c (c + hours (int (Suc n))) acc lg =
        baseline_loop self (c + hours 1) ((c + hours 1) + hours (int n))
          (acc @ [total_invocations (window_metrics self c)]) (lg @ window_log self c)"
    by (subst baseline_loop_step [OF lt]) (simp add: hours_def algebra_simps)
  also have "\<dots> =
     ((acc @ [total_invocations (window_metrics self c)]) @
        map (\<lambda>k. total_invocations (window_metrics self (c + hours 1 + hours (int k)))) [0..<n],
      (lg @ window_log self c) @
        concat (map (\<lambda>k. window_log self (c + hours 1 + hours (int k))) [0..<n]))"
    by (rule Suc.IH)
  also have "\<dots> =
     (acc @ map (\<lambda>k. total_invocations (window_metrics self (c + hours (int k)))) [0..<Suc n],
      lg @ concat (map (\<lambda>k. window_log self (c + hours (int k))) [0..<Suc n]))"
    by (simp only: upt_0_Suc_map hours_Suc) (simp add: comp_def hours_def)
  finally show ?case .
qed

lemma error_rate_loop_unroll:
  "error_rate_loop self c (c + hours (int n)) acc lg =
     (acc @ concat (map (\<lambda>k. window_error_rate self (c + hours (int k))) [0..<n]),
      lg @ concat (map (\<lambda>k. window_log self (c + hours (int k))) [0..<n]), None)"
proof (induction n arbitrary: c acc lg)
  case 0
  show ?case by (simp add: error_rate_loop_stop hours_def)
next
  case (Suc n)
  have lt: "c < c + hours (int (Suc n))" by (simp add: hours_def)
  have "error_rate_loop self c (c + hours (int (Suc n))) acc lg =
        error_rate_loop self (c + hours 1) ((c + hours 1) + hours (int n))
          (acc @ window_error_rate self c) (lg @ window_log self c)"
    by (subst error_rate_loop_step [OF lt]) (simp add: hours_def algebra_simps)
  also have "\<dots> =
     ((acc @ window_error_rate self c) @
        concat (map (\<lambda>k. window_error_rate self (c + hours 1 + hours (int k))) [0..<n]),
      (lg @ window_log self c) @
        concat (map (\<lambda>k. window_log self (c + hours 1 + hours (int k))) [0..<n]), None)"
    by (rule Suc.IH)
  also have "\<dots> =
     (acc @ concat (map (\<lambda>k. window_error_rate self (c + hours (int k))) [0..<Suc n]),
      lg @ concat (map (\<lambda>k. window_log self (c + hours (int k))) [0..<Suc n]), None)"
    by (simp only: upt_0_Suc_map hours_Suc) (simp add: comp_def hours_def)
  finally show ?case .
qed

text \<open>The division of line 289 is guarded: the loop raises nothing.\<close>

lemma error_rate_loop_no_raise: "snd (snd (error_rate_loop self c b acc lg)) = None"
proof (induction "nat (b - c)" arbitrary: c acc lg rule: less_induct)
  case less
  show ?case
  proof (cases "c < b")
    case True
    then have "nat (b - (c + hours 1)) < nat (b - c)" by (simp add: hours_def)
    then show ?thesis by (simp add: error_rate_loop_step [OF True] less)
  next
    case False
    then show ?thesis by (simp add: error_rate_loop_stop)
  qed
qed

lemma error_rate_loop_rates_log:
  "fst (error_rate_loop self c b acc lg) = fst (error_rate_loop self c b acc lg')"
proof (induction "nat (b - c)" arbitrary: c acc lg lg' rule: less_induct)
  case less
  show ?case
  proof (cases "c < b")
    case True
    then have "nat (b - (c + hours 1)) < nat (b - c)" by (simp add: hours_def)
    then show ?thesis
      by (simp only: error_rate_loop_step [OF True]) (rule less)
  next
    case False
    then show ?thesis by (simp add: error_rate_loop_stop)
  qed
qed

lemma error_rate_loop_result:
  "\<exists>lg'. error_rate_loop self s (e - hours 1) [] lg = (baseline_error_rates self s e, lg', None)"
proof -
  obtain r l x where t: "error_rate_loop self s (e - hours 1) [] lg = (r, l, x)"
    by (cases "error_rate_loop self s (e - hours 1) [] lg") auto
  have "x = None" using error_rate_loop_no_raise [of self s "e - hours 1" "[]" lg] t by simp
  moreover have "r = baseline_error_rates self s e"
    using error_rate_loop_rates_log [of self s "e - hours 1" "[]" lg "[]"] t
    by (simp add: baseline_error_rates_def)
  ultimately show ?thesis using t by simp
qed

section \<open>The shape of a detection run\<close>

lemma check_error_rate_result:
  "\<exists>lg'. check_error_rate self tm s e cur chs anomalies lg =
     (anomalies @ error_rate_anomalies self tm s e cur chs, lg', None)"
proof -
  obtain l where t:
    "error_rate_loop self s (e - hours 1) [] lg = (baseline_error_rates self s e, l, None)"
    using error_rate_loop_result by blast
  show ?thesis
    by (simp add: check_error_rate_def t py_truediv_def Let_def statistics_mean_def
          statistics_stdev_def error_rate_of_def error_threshold_of_def error_stdev_def
          error_rate_anomalies_def)
qed

lemma after_baseline_short:
  "length bm < 24 \<Longrightarrow>
   detect_anomalies_after_baseline self now tm s e bm lg =
     ([], lg @ [(WARNING, ''Insufficient data for anomaly detection'')], None)"
  by (simp add: detect_anomalies_after_baseline_def)

lemma after_baseline_sufficient:
  assumes "24 \<le> length bm"
  shows "\<exists>lg'. detect_anomalies_after_baseline self now tm s e bm lg =
     (check_high_usage (window_metrics self (replace_hour_start now))
        (mean_of bm + tm * stdev_of bm) (mean_of bm) (replace_hour_start now) [] @
      error_rate_anomalies self tm s e (window_metrics self (replace_hour_start now))
        (replace_hour_start now), lg', None)"
proof -
  have ne: "bm \<noteq> []" and l2: "\<not> length bm < 2" and l24: "\<not> length bm < 24"
    using assms by auto
  obtain l where c: "check_error_rate self tm s e (window_metrics self (replace_hour_start now))
       (replace_hour_start now)
       (check_high_usage (window_metrics self (replace_hour_start now))
          (mean_of bm + tm * stdev_of bm) (mean_of bm) (replace_hour_start now) [])
       (lg @ window_log self (replace_hour_start now)) =
     (check_high_usage (window_metrics self (replace_hour_start now))
        (mean_of bm + tm * stdev_of bm) (mean_of bm) (replace_hour_start now) [] @
      error_rate_anomalies self tm s e (window_metrics self (replace_hour_start now))
        (replace_hour_start now), l, None)"
    using check_error_rate_result by blast
  show ?thesis
    unfolding detect_anomalies_after_baseline_def Let_def case_prod_beta
    by (simp only: l24 if_False statistics_mean_def statistics_stdev_def ne l2 sum.case
          window_metrics_def [symmetric] window_log_def [symmetric] c) blast
qed

text \<open>The anomalies of a run on a given baseline.\<close>

lemma from_baseline_anomalies:
  "fst (detect_anomalies_from_baseline self now tm s e bm lg) =
     (if length bm < 24 then []
      else check_high_usage (window_metrics self (replace_hour_start now))
             (mean_of bm + tm * stdev_of bm) (mean_of bm) (replace_hour_start now) [] @
           error_rate_anomalies self tm s e (window_metrics self (replace_hour_start now))
             (replace_hour_start now))"
proof (cases "length bm < 24")
  case True
  then show ?thesis
    by (simp add: detect_anomalies_from_baseline_def after_baseline_short)
next
  case False
  then have "24 \<le> length bm" by simp
  from after_baseline_sufficient [OF this, of self now tm s e lg] False
  show ?thesis
    by (auto simp: detect_anomalies_from_baseline_def)
qed

lemma days_7_hours: "now - days 7 + hours (int 168) = now"
  by (simp add: days_def hours_def)

text \<open>A whole run: the baseline always holds the 168 samples of the last seven days.\<close>

lemma detect_anomalies_unroll:
  "detect_anomalies self now1 now2 tm =
     detect_anomalies_from_baseline self now2 tm (now1 - days 7) now1
       (map (\<lambda>k. total_invocations (window_metrics self (now1 - days 7 + hours (int k)))) [0..<168])
       (concat (map (\<lambda>k. window_log self (now1 - days 7 + hours (int k))) [0..<168]))"
proof -
  have "baseline_loop self (now1 - days 7) now1 [] [] =
        baseline_loop self (now1 - days 7) (now1 - days 7 + hours (int 168)) [] []"
    by (simp only: days_7_hours)
  then show ?thesis
    unfolding detect_anomalies_def Let_def
    by (simp only: baseline_loop_unroll append_Nil case_prod_conv)
qed

section \<open>The example sources\<close>

lemma sum_points_table: "sum_points k (points_of k v) = Inr (value_or_zero v)"
  by (simp add: points_of_def value_or_zero_def split: option.splits)

lemma table_collect:
  "collect_usage_metrics (monitor_of (table_source iv ev)) s e =
     (initial_metrics\<lparr> total_invocations := value_or_zero (iv s),
         total_errors := value_or_zero (ev s),
         success_rate := Some (if value_or_zero (iv s) > 0
            then (value_or_zero (iv s) - value_or_zero (ev s)) / value_or_zero (iv s) * 100
            else 0) \<rparr>, [])"
  by (simp add: collect_usage_metrics_def collect_usage_metrics_try_def
        get_cloudwatch_metric_def monitor_of_def table_source_def sum_points_table
        calculate_success_rate_def py_truediv_def initial_metrics_def Let_def)

lemma failing_collect:
  "fst (collect_usage_metrics (monitor_of failing_source) s e) =
     initial_metrics\<lparr> success_rate := Some 0 \<rparr>"
  by (simp add: collect_usage_metrics_def collect_usage_metrics_try_def
        get_cloudwatch_metric_def monitor_of_def failing_source_def
        calculate_success_rate_def py_truediv_def initial_metrics_def Let_def)

section \<open>The guard on the size of the baseline\<close>

text \<open>
  C2. For every baseline of hourly invocation counts with fewer than 24 samples, the
  detection returns the empty list of anomalies, whatever the monitor (hence the value
  of the current hour) and whatever the threshold multiplier.
\<close>

theorem insufficient_baseline_returns_empty:
  "length baseline_metrics < 24 \<Longrightarrow>
   fst (detect_anomalies_from_baseline self now threshold_multiplier start_time end_time
          baseline_metrics lg) = []"
  by (simp add: from_baseline_anomalies)

theorem insufficient_baseline_returns_empty_witness:
  "length (replicate 23 (1::real)) < 24 \<and>
   fst (detect_anomalies_from_baseline
          (monitor_of (table_source (\<lambda>_. Some 1000) (\<lambda>_. Some 900))) 0 2 0 (hours 1)
          (replicate 23 1) []) = []"
  using insufficient_baseline_returns_empty
    [of "replicate 23 (1::real)" "monitor_of (table_source (\<lambda>_. Some 1000) (\<lambda>_. Some 900))"
        0 2 0 "hours 1" "[]"]
  by simp

section \<open>Arithmetic of the examples\<close>

lemma map_upt_const: "(\<And>k. k < n \<Longrightarrow> f k = c) \<Longrightarrow> map f [0..<n] = replicate n c"
  by (induction n) (auto simp: replicate_append_same)

lemma concat_replicate_single: "concat (replicate n [x]) = replicate n x"
  by (induction n) auto

lemma mean_of_replicate: "0 < n \<Longrightarrow> mean_of (replicate n c) = c"
  by (simp add: mean_of_def sum_list_replicate)

lemma stdev_of_replicate: "0 < n \<Longrightarrow> stdev_of (replicate n c) = 0"
  by (simp add: stdev_of_def mean_of_replicate sum_list_replicate comp_def)

lemma stdev_of_nonneg: "0 \<le> stdev_of xs"
  unfolding stdev_of_def
  by (intro real_sqrt_ge_zero divide_nonneg_nonneg sum_list_nonneg) auto

lemma table_window:
  "window_metrics (monitor_of (table_source iv ev)) t =
     initial_metrics\<lparr> total_invocations := value_or_zero (iv t),
         total_errors := value_or_zero (ev t),
         success_rate := Some (if value_or_zero (iv t) > 0
            then (value_or_zero (iv t) - value_or_zero (ev t)) / value_or_zero (iv t) * 100
            else 0) \<rparr>"
  by (simp add: window_metrics_def table_collect)

lemma hours_less_days: "k < 168 \<Longrightarrow> hours (int k) \<noteq> days 7"
  by (simp add: hours_def days_def)

lemma replace_hour_start_days: "replace_hour_start (days 7) = days 7"
  by (simp add: replace_hour_start_def hours_def days_def)

lemma days_hours_167: "days 7 - hours 1 = 0 + hours (int 167)"
  by (simp add: days_def hours_def)

lemma step_window_baseline:
  "k < 168 \<Longrightarrow> window_metrics (step_monitor b ci ce) (hours (int k)) =
     initial_metrics\<lparr> total_invocations := b, total_errors := 0,
        success_rate := Some (if b > 0 then 100 else 0) \<rparr>"
  by (simp add: step_monitor_def table_window hours_less_days value_or_zero_def)

lemma step_window_current:
  "window_metrics (step_monitor b ci ce) (days 7) =
     initial_metrics\<lparr> total_invocations := ci, total_errors := ce,
        success_rate := Some (if ci > 0 then (ci - ce) / ci * 100 else 0) \<rparr>"
  by (simp add: step_monitor_def table_window value_or_zero_def)

lemma step_baseline:
  "map (\<lambda>k. total_invocations (window_metrics (step_monitor b ci ce) (hours (int k))))
     [0..<168] = replicate 168 b"
  by (rule map_upt_const) (simp add: step_window_baseline initial_metrics_def)

lemma step_error_rates:
  assumes "0 < b"
  shows "baseline_error_rates (step_monitor b ci ce) 0 (days 7) = replicate 167 0"
proof -
  have "\<And>k. k < 167 \<Longrightarrow> window_error_rate (step_monitor b ci ce) (0 + hours (int k)) = [0]"
    using assms by (simp add: window_error_rate_def step_window_baseline initial_metrics_def)
  then have "map (\<lambda>k. window_error_rate (step_monitor b ci ce) (0 + hours (int k))) [0..<167]
      = replicate 167 [0]"
    by (rule map_upt_const)
  then show ?thesis
    by (simp only: baseline_error_rates_def days_hours_167 error_rate_loop_unroll fst_conv
          append_Nil concat_replicate_single)
qed

lemma step_run:
  assumes "0 < b"
  shows "fst (detect_anomalies (step_monitor b ci ce) (days 7) (days 7) tm) =
     (if ci > b
      then [\<lparr> type = ''high_usage'', current_value = ci, threshold = b, baseline_mean = b,
               timestamp = days 7, severity = (if ci > b * 1.5 then ''high'' else ''medium'') \<rparr>]
      else []) @
     (if 0 < ci \<and> ce / ci * 100 > 5
      then [\<lparr> type = ''high_error_rate'', current_value = ce / ci * 100, threshold = 0,
               baseline_mean = 0, timestamp = days 7, severity = ''high'' \<rparr>]
      else [])"
  using assms
  by (simp add: detect_anomalies_unroll step_baseline from_baseline_anomalies
        replace_hour_start_days step_window_current check_high_usage_def
        error_rate_anomalies_def mean_of_replicate stdev_of_replicate step_error_rates
        error_rate_of_def error_threshold_of_def error_stdev_def initial_metrics_def)

lemma error_rate_loop_empty_span: "baseline_error_rates self s (s + hours 1) = []"
  by (simp add: baseline_error_rates_def error_rate_loop_stop)

lemma check_high_usage_Nil:
  "check_high_usage cur thr m chs [] =
     (if total_invocations cur > thr
      then [\<lparr> type = ''high_usage'', current_value = total_invocations cur, threshold = thr,
               baseline_mean = m, timestamp = chs,
               severity = (if total_invocations cur > thr * 1.5 then ''high'' else ''medium'') \<rparr>]
      else [])"
  by (simp add: check_high_usage_def)

lemma error_rate_anomalies_type:
  "a \<in> set (error_rate_anomalies self tm s e cur chs) \<Longrightarrow> type a = ''high_error_rate''"
  by (auto simp: error_rate_anomalies_def split: if_splits)


section \<open>The severity and the number of the anomalies\<close>

text \<open>
  C10. A run of \<^verbatim>\<open>detect_anomalies\<close> returns at most two anomalies, at most one of
  type \<^verbatim>\<open>high_usage\<close> and at most one of type \<^verbatim>\<open>high_error_rate\<close>, and the severity
  of each is \<^verbatim>\<open>medium\<close> or \<^verbatim>\<open>high\<close>.
\<close>

theorem at_most_two_anomalies:
  "length (fst (detect_anomalies self now1 now2 threshold_multiplier)) \<le> 2 \<and>
   length (filter (\<lambda>a. type a = ''high_usage'')
             (fst (detect_anomalies self now1 now2 threshold_multiplier))) \<le> 1 \<and>
   length (filter (\<lambda>a. type a = ''high_error_rate'')
             (fst (detect_anomalies self now1 now2 threshold_multiplier))) \<le> 1 \<and>
   (\<forall>a \<in> set (fst (detect_anomalies self now1 now2 threshold_multiplier)).
       severity a = ''medium'' \<or> severity a = ''high'')"
  by (simp add: detect_anomalies_unroll from_baseline_anomalies check_high_usage_def
        error_rate_anomalies_def)

theorem at_most_two_anomalies_witness:
  "length (fst (detect_anomalies (step_monitor 10 31 31) (days 7) (days 7) 2)) = 2 \<and>
   map type (fst (detect_anomalies (step_monitor 10 31 31) (days 7) (days 7) 2))
     = [''high_usage'', ''high_error_rate''] \<and>
   map severity (fst (detect_anomalies (step_monitor 10 31 31) (days 7) (days 7) 2))
     = [''high'', ''high'']"
  using at_most_two_anomalies [of "step_monitor 10 31 31" "days 7" "days 7" 2]
  by (simp add: step_run)

section \<open>The usage check\<close>

text \<open>
  C4. On a baseline of at least 24 invocation counts, a \<^verbatim>\<open>high_usage\<close> anomaly is
  emitted if and only if the invocations of the current hour are strictly above the mean
  of the baseline plus the multiplier times its standard deviation; its severity is
  \<^verbatim>\<open>high\<close> exactly when the current value is strictly above 1.5 times that limit, and
  \<^verbatim>\<open>medium\<close> otherwise. For the baseline of 24 times 10, a current value of 10 gives no
  such anomaly (and no anomaly at all when the current hour has no error), and 31 gives
  one of severity \<^verbatim>\<open>high\<close> with threshold 10.
\<close>

theorem high_usage_iff_above_threshold:
  assumes "24 \<le> length baseline_metrics"
  shows
   "let anomalies = fst (detect_anomalies_from_baseline self now threshold_multiplier
                           start_time end_time baseline_metrics lg);
        current = total_invocations (window_metrics self (replace_hour_start now));
        limit = mean_of baseline_metrics + threshold_multiplier * stdev_of baseline_metrics
    in ((\<exists>a \<in> set anomalies. type a = ''high_usage'') \<longleftrightarrow> current > limit) \<and>
       (\<forall>a \<in> set anomalies. type a = ''high_usage'' \<longrightarrow>
           current_value a = current \<and> threshold a = limit \<and>
           baseline_mean a = mean_of baseline_metrics \<and>
           (severity a = ''high'' \<longleftrightarrow> current > limit * 1.5) \<and>
           (severity a = ''medium'' \<longleftrightarrow> \<not> current > limit * 1.5)) \<and>
       (baseline_metrics = replicate 24 10 \<and> current = 10 \<longrightarrow>
           \<not> (\<exists>a \<in> set anomalies. type a = ''high_usage'')) \<and>
       (baseline_metrics = replicate 24 10 \<and> current = 10 \<and>
        total_errors (window_metrics self (replace_hour_start now)) = 0 \<longrightarrow> anomalies = []) \<and>
       (baseline_metrics = replicate 24 10 \<and> current = 31 \<longrightarrow>
           (\<exists>a \<in> set anomalies. type a = ''high_usage'' \<and> severity a = ''high''
               \<and> threshold a = 10 \<and> current_value a = 31))"
proof -
  have l24: "\<not> length baseline_metrics < 24" using assms by simp
  have m: "mean_of (replicate 24 (10::real)) = 10" by (simp add: mean_of_replicate)
  have sd: "stdev_of (replicate 24 (10::real)) = 0" by (simp add: stdev_of_replicate)
  have t: "\<And>a tm s e cur chs. a \<in> set (error_rate_anomalies self tm s e cur chs)
             \<Longrightarrow> type a \<noteq> ''high_usage''"
    using error_rate_anomalies_type by fastforce
  have z: "\<And>tm s e cur chs. total_errors cur = 0 \<Longrightarrow> error_rate_anomalies self tm s e cur chs = []"
    by (simp add: error_rate_anomalies_def error_rate_of_def)
  show ?thesis
    unfolding Let_def from_baseline_anomalies
    apply (simp only: l24 if_False)
    apply (intro conjI)
    subgoal using t by (auto simp: check_high_usage_Nil)
    subgoal using t by (auto simp: check_high_usage_Nil)
    subgoal using t by (auto simp: check_high_usage_Nil m sd)
    subgoal using z by (auto simp: check_high_usage_Nil m sd)
    subgoal by (auto simp: check_high_usage_Nil m sd)
    done
qed

theorem high_usage_iff_above_threshold_witness:
  "24 \<le> length (replicate 24 (10::real)) \<and>
   fst (detect_anomalies_from_baseline (monitor_of (table_source (\<lambda>_. Some 31) (\<lambda>_. Some 0)))
          0 2 0 (hours 1) (replicate 24 10) []) =
     [\<lparr> type = ''high_usage'', current_value = 31, threshold = 10, baseline_mean = 10,
         timestamp = 0, severity = ''high'' \<rparr>] \<and>
   fst (detect_anomalies_from_baseline (monitor_of (table_source (\<lambda>_. Some 10) (\<lambda>_. Some 0)))
          0 2 0 (hours 1) (replicate 24 10) []) = []"
proof -
  have h: "24 \<le> length (replicate 24 (10::real))" by simp
  have r: "replace_hour_start 0 = 0" by (simp add: replace_hour_start_def)
  have e: "\<And>self. baseline_error_rates self 0 (hours 1) = []"
    using error_rate_loop_empty_span [of _ 0] by simp
  show ?thesis
    using h
      high_usage_iff_above_threshold [OF h,
        of "monitor_of (table_source (\<lambda>_. Some 31) (\<lambda>_. Some 0))" 0 2 0 "hours 1" "[]"]
      high_usage_iff_above_threshold [OF h,
        of "monitor_of (table_source (\<lambda>_. Some 10) (\<lambda>_. Some 0))" 0 2 0 "hours 1" "[]"]
    by (simp add: from_baseline_anomalies r e check_high_usage_Nil error_rate_anomalies_def
          table_window value_or_zero_def mean_of_replicate stdev_of_replicate
          initial_metrics_def Let_def)
qed

section \<open>The error-rate check\<close>



section \<open>Division by zero\<close>




















section \<open>Determinism\<close>

lemma collect_cong:
  assumes "\<And>metric_name statistic.
      get_metric_statistics self1 ''AWS/Bedrock'' metric_name s e 300 statistic =
      get_metric_statistics self2 ''AWS/Bedrock'' metric_name s e 300 statistic"
  shows "collect_usage_metrics self1 s e = collect_usage_metrics self2 s e"
proof -
  have g: "\<And>metric_name statistic.
      get_cloudwatch_metric self1 ''AWS/Bedrock'' metric_name s e statistic =
      get_cloudwatch_metric self2 ''AWS/Bedrock'' metric_name s e statistic"
    by (simp add: get_cloudwatch_metric_def assms)
  show ?thesis
    unfolding collect_usage_metrics_def collect_usage_metrics_try_def g ..
qed

lemma baseline_error_rates_week:
  "baseline_error_rates self (now - days 7) now =
     concat (map (\<lambda>k. window_error_rate self (now - days 7 + hours (int k))) [0..<167])"
proof -
  have "now - hours 1 = now - days 7 + hours (int 167)"
    by (simp add: days_def hours_def)
  then show ?thesis
    by (simp only: baseline_error_rates_def error_rate_loop_unroll fst_conv append_Nil)
qed

lemma hours_less_days8: "k < 168 \<Longrightarrow> hours (int k) \<noteq> days 8"
  by (simp add: hours_def days_def)

text \<open>
  C8. The anomalies of a run are a function of the fetched metric data, the clocks and
  the multiplier: two monitors whose metric sources answer alike on the hourly windows
  of the run (the 168 windows of the baseline and the window of the current hour) return
  the same list of anomalies, whatever else differs between them.
\<close>

theorem detect_anomalies_deterministic:
  assumes "\<forall>t \<in> insert (replace_hour_start now2)
                   ((\<lambda>k. now1 - days 7 + hours (int k)) ` {..<168}).
             \<forall>metric_name statistic.
               get_metric_statistics self1 ''AWS/Bedrock'' metric_name t (t + hours 1) 300 statistic =
               get_metric_statistics self2 ''AWS/Bedrock'' metric_name t (t + hours 1) 300 statistic"
  shows "fst (detect_anomalies self1 now1 now2 threshold_multiplier) =
         fst (detect_anomalies self2 now1 now2 threshold_multiplier)"
proof -
  have w: "window_metrics self1 t = window_metrics self2 t"
    if "t \<in> insert (replace_hour_start now2) ((\<lambda>k. now1 - days 7 + hours (int k)) ` {..<168})"
    for t
    unfolding window_metrics_def using assms that by (subst collect_cong) auto
  have cur: "window_metrics self1 (replace_hour_start now2)
             = window_metrics self2 (replace_hour_start now2)"
    by (rule w) simp
  have base: "window_metrics self1 (now1 - days 7 + hours (int k))
              = window_metrics self2 (now1 - days 7 + hours (int k))" if "k < 168" for k
    by (rule w) (use that in auto)
  have bm: "map (\<lambda>k. total_invocations (window_metrics self1 (now1 - days 7 + hours (int k))))
               [0..<168] =
            map (\<lambda>k. total_invocations (window_metrics self2 (now1 - days 7 + hours (int k))))
               [0..<168]"
    by (rule map_cong) (auto simp: base)
  have er: "baseline_error_rates self1 (now1 - days 7) now1
            = baseline_error_rates self2 (now1 - days 7) now1"
    unfolding baseline_error_rates_week
    by (rule arg_cong [where f = concat], rule map_cong) (auto simp: window_error_rate_def base)
  show ?thesis
    by (simp add: detect_anomalies_unroll from_baseline_anomalies bm cur er
          error_rate_anomalies_def error_threshold_of_def)
qed

theorem detect_anomalies_deterministic_witness:
  "fst (detect_anomalies (step_monitor 10 31 31) (days 7) (days 7) 2) =
   fst (detect_anomalies later_monitor (days 7) (days 7) 2) \<and>
   get_metric_statistics (step_monitor 10 31 31) ''AWS/Bedrock'' ''Invocations''
      (days 8) (days 8 + hours 1) 300 ''Sum'' = Inr (Some [[''Sum'' \<mapsto> 10]]) \<and>
   get_metric_statistics later_monitor ''AWS/Bedrock'' ''Invocations''
      (days 8) (days 8 + hours 1) 300 ''Sum'' = Inr (Some [[''Sum'' \<mapsto> 999]])"
proof -
  have d: "days 8 \<noteq> days 7" by (simp add: days_def)
  have "\<forall>t \<in> insert (replace_hour_start (days 7))
                   ((\<lambda>k. days 7 - days 7 + hours (int k)) ` {..<168}).
             \<forall>metric_name statistic.
               get_metric_statistics (step_monitor 10 31 31) ''AWS/Bedrock'' metric_name t
                 (t + hours 1) 300 statistic =
               get_metric_statistics later_monitor ''AWS/Bedrock'' metric_name t
                 (t + hours 1) 300 statistic"
    by (auto simp: step_monitor_def later_monitor_def monitor_of_def table_source_def
          replace_hour_start_days hours_less_days8 d)
  from detect_anomalies_deterministic [OF this, of 2]
  show ?thesis
    by (simp add: step_monitor_def later_monitor_def monitor_of_def table_source_def
          points_of_def d)
qed

section \<open>The alert\<close>

lemma collect_same_source:
  assumes "get_metric_statistics self1 = get_metric_statistics self2"
  shows "collect_usage_metrics self1 s e = collect_usage_metrics self2 s e"
  by (rule collect_cong) (simp add: assms)

lemma baseline_loop_same_source:
  assumes "get_metric_statistics self1 = get_metric_statistics self2"
  shows "baseline_loop self1 c e acc lg = baseline_loop self2 c e acc lg"
proof (induction "nat (e - c)" arbitrary: c acc lg rule: less_induct)
  case less
  show ?case
  proof (cases "c < e")
    case True
    then have d: "nat (e - (c + hours 1)) < nat (e - c)" by (simp add: hours_def)
    show ?thesis
      by (simp only: baseline_loop_step [OF True] window_metrics_def window_log_def
            collect_same_source [OF assms] less [OF d])
  next
    case False
    then show ?thesis by (simp add: baseline_loop_stop)
  qed
qed

lemma error_rate_loop_same_source:
  assumes "get_metric_statistics self1 = get_metric_statistics self2"
  shows "error_rate_loop self1 c b acc lg = error_rate_loop self2 c b acc lg"
proof (induction "nat (b - c)" arbitrary: c acc lg rule: less_induct)
  case less
  show ?case
  proof (cases "c < b")
    case True
    then have d: "nat (b - (c + hours 1)) < nat (b - c)" by (simp add: hours_def)
    show ?thesis
      by (simp only: error_rate_loop_step [OF True] window_error_rate_def window_metrics_def
            window_log_def collect_same_source [OF assms] less [OF d])
  next
    case False
    then show ?thesis by (simp add: error_rate_loop_stop)
  qed
qed

lemma detect_anomalies_same_source:
  assumes "get_metric_statistics self1 = get_metric_statistics self2"
  shows "detect_anomalies self1 now1 now2 tm = detect_anomalies self2 now1 now2 tm"
  unfolding detect_anomalies_def detect_anomalies_from_baseline_def
    detect_anomalies_after_baseline_def check_error_rate_def
    collect_same_source [OF assms] baseline_loop_same_source [OF assms]
    error_rate_loop_same_source [OF assms] ..


lemma lambda_handler_response:
  assumes "construct_monitor w = Inr monitor"
  shows "fst (lambda_handler w) =
     (case analyze_user_behavior w of
        None \<Rightarrow> None
      | Some user_behavior \<Rightarrow>
          Some \<lparr> statusCode = 200,
                 body = Completed ''Monitoring completed successfully''
                   (len_metrics (fst (collect_usage_metrics monitor
                       (utcnow_handler w - hours 1) (utcnow_handler w))))
                   (length (fst (detect_anomalies monitor (utcnow_detect1 w)
                       (utcnow_detect2 w) 2)))
                   (case user_behavior of None \<Rightarrow> 0 | Some n \<Rightarrow> n) \<rparr>)"
    and "fst (snd (lambda_handler w)) =
           fst (detect_anomalies monitor (utcnow_detect1 w) (utcnow_detect2 w) 2)"
  using assms
  by (simp_all add: lambda_handler_def Let_def case_prod_beta split: option.splits)

lemma alerting_source:
  "get_metric_statistics (alerting_monitor publish) = get_metric_statistics (step_monitor 10 31 31)"
  by (simp add: alerting_monitor_def)

text \<open>
  C9. \<^verbatim>\<open>send_alert\<close> returns a boolean and raises nothing: without a topic ARN it
  returns False and makes no request; when the publish raises it returns False and logs
  the error; it returns True exactly when a topic is configured and the publish
  succeeds. In \<^verbatim>\<open>lambda_handler\<close> the response and the list of anomalies are the same
  whatever the SNS client does, and the list is the one \<^verbatim>\<open>detect_anomalies\<close> returned.
\<close>

theorem send_alert_reports_success:
  "((sns_topic_arn self = None \<or> sns_topic_arn self = Some []) \<longrightarrow>
      fst (send_alert self message subject) = False \<and>
      fst (snd (send_alert self message subject)) = []) \<and>
   (sns_topic_arn self = Some arn \<and> arn \<noteq> [] \<and>
    sns_publish self arn message subject = Some e \<longrightarrow>
      send_alert self message subject =
        (False, [(arn, message, subject)],
         [(ERROR, ''Error sending alert: '' @ str_exception e)])) \<and>
   (fst (send_alert self message subject) \<longleftrightarrow>
      (\<exists>arn. sns_topic_arn self = Some arn \<and> arn \<noteq> [] \<and>
             sns_publish self arn message subject = None)) \<and>
   (construct_monitor w = Inr monitor \<longrightarrow>
      fst (lambda_handler (w\<lparr>construct_monitor := Inr (monitor\<lparr>sns_publish := publish\<rparr>)\<rparr>))
        = fst (lambda_handler w) \<and>
      fst (snd (lambda_handler (w\<lparr>construct_monitor := Inr (monitor\<lparr>sns_publish := publish\<rparr>)\<rparr>)))
        = fst (detect_anomalies monitor (utcnow_detect1 w) (utcnow_detect2 w) 2))"
proof (intro conjI impI)
  assume c: "construct_monitor w = Inr monitor"
  have s: "get_metric_statistics (monitor\<lparr>sns_publish := publish\<rparr>) = get_metric_statistics monitor"
    by simp
  have c': "construct_monitor (w\<lparr>construct_monitor := Inr (monitor\<lparr>sns_publish := publish\<rparr>)\<rparr>)
              = Inr (monitor\<lparr>sns_publish := publish\<rparr>)"
    by simp
  show "fst (lambda_handler (w\<lparr>construct_monitor := Inr (monitor\<lparr>sns_publish := publish\<rparr>)\<rparr>))
        = fst (lambda_handler w)"
    by (simp add: lambda_handler_response(1) [OF c] lambda_handler_response(1) [OF c']
          detect_anomalies_same_source [OF s] collect_same_source [OF s]
        split: option.splits)
  show "fst (snd (lambda_handler (w\<lparr>construct_monitor := Inr (monitor\<lparr>sns_publish := publish\<rparr>)\<rparr>)))
        = fst (detect_anomalies monitor (utcnow_detect1 w) (utcnow_detect2 w) 2)"
    by (simp add: lambda_handler_response(2) [OF c'] detect_anomalies_same_source [OF s])
qed (auto simp: send_alert_def split: option.splits)


theorem send_alert_reports_success_witness:
  "fst (send_alert (alerting_monitor refusing_sns) ''m'' ''s'') = False \<and>
   fst (send_alert (alerting_monitor accepting_sns) ''m'' ''s'') = True \<and>
   send_alert (step_monitor 10 31 31) ''m'' ''s'' =
     (False, [], [(WARNING, ''SNS topic ARN not configured, cannot send alert'')]) \<and>
   fst (lambda_handler (alerting_world refusing_sns)) =
     Some \<lparr> statusCode = 200,
            body = Completed ''Monitoring completed successfully'' 9 2 3 \<rparr> \<and>
   fst (lambda_handler (alerting_world refusing_sns)) =
     fst (lambda_handler (alerting_world accepting_sns))"
proof -
  have c: "construct_monitor (alerting_world accepting_sns) = Inr (alerting_monitor accepting_sns)"
    by (simp add: alerting_world_def)
  have u: "(alerting_world accepting_sns)
             \<lparr>construct_monitor := Inr ((alerting_monitor accepting_sns)\<lparr>sns_publish := refusing_sns\<rparr>)\<rparr>
           = alerting_world refusing_sns"
    by (simp add: alerting_world_def alerting_monitor_def)
  note t = send_alert_reports_success
    [of "alerting_monitor accepting_sns" "''m''" "''s''"
        "''arn:aws:sns:us-east-1:000000000000:alerts''" "ClientError ''AuthorizationError''"
        "alerting_world accepting_sns" "alerting_monitor accepting_sns" refusing_sns]
  have l: "\<And>s e. len_metrics (fst (collect_usage_metrics (step_monitor 10 31 31) s e)) = 9"
    by (simp add: step_monitor_def table_collect len_metrics_def)
  have r: "fst (lambda_handler (alerting_world accepting_sns)) =
     Some \<lparr> statusCode = 200,
            body = Completed ''Monitoring completed successfully'' 9 2 3 \<rparr>"
    by (simp only: lambda_handler_response(1) [OF c])
       (simp add: alerting_world_def
          detect_anomalies_same_source [OF alerting_source] collect_same_source [OF alerting_source]
          step_run l)
  show ?thesis
    using t c u r
    by (simp add: send_alert_def alerting_monitor_def refusing_sns_def accepting_sns_def
          step_monitor_def monitor_of_def)
qed

section \<open>Failures of the metric source\<close>






lemma after_baseline_no_raise:
  "snd (snd (detect_anomalies_after_baseline self now tm s e bm lg)) = None"
proof (cases "length bm < 24")
  case True
  then show ?thesis by (simp add: after_baseline_short)
next
  case False
  then have "24 \<le> length bm" by simp
  from after_baseline_sufficient [OF this, of self now tm s e lg]
  show ?thesis by auto
qed










section \<open>The insufficient baseline and the log\<close>

lemma get_cloudwatch_metric_log:
  "x \<in> set (snd (get_cloudwatch_metric self ns name s e stat)) \<Longrightarrow> fst x = ERROR"
  by (auto simp: get_cloudwatch_metric_def split: sum.splits option.splits)

lemma collect_try_log:
  "x \<in> set (fst (snd (collect_usage_metrics_try self s e))) \<Longrightarrow> fst x = ERROR"
  unfolding collect_usage_metrics_try_def Let_def case_prod_beta
  by (auto split: sum.splits if_splits dest: get_cloudwatch_metric_log)

lemma collect_log:
  "x \<in> set (snd (collect_usage_metrics self s e)) \<Longrightarrow> fst x = ERROR"
  using collect_try_log [of x self s e]
  by (cases "collect_usage_metrics_try self s e")
     (auto simp: collect_usage_metrics_def split: option.splits)

lemma error_rate_loop_log:
  "x \<in> set (fst (snd (error_rate_loop self c b acc lg))) \<Longrightarrow> x \<in> set lg \<or> fst x = ERROR"
proof (induction "nat (b - c)" arbitrary: c acc lg rule: less_induct)
  case less
  show ?case
  proof (cases "c < b")
    case True
    then have d: "nat (b - (c + hours 1)) < nat (b - c)" by (simp add: hours_def)
    from less(2) have "x \<in> set (fst (snd (error_rate_loop self (c + hours 1) b
        (acc @ window_error_rate self c) (lg @ window_log self c))))"
      by (simp only: error_rate_loop_step [OF True])
    from less(1) [OF d this] show ?thesis
      by (auto simp: window_log_def dest: collect_log)
  next
    case False
    with less(2) show ?thesis by (simp add: error_rate_loop_stop)
  qed
qed

lemma check_error_rate_log:
  "x \<in> set (fst (snd (check_error_rate self tm s e cur chs anomalies lg)))
     \<Longrightarrow> x \<in> set lg \<or> fst x = ERROR"
  unfolding check_error_rate_def Let_def case_prod_beta
  by (auto simp: py_truediv_def split: if_splits sum.splits option.splits
        dest: error_rate_loop_log)

lemma after_baseline_log:
  assumes "24 \<le> length bm"
    and "x \<in> set (fst (snd (detect_anomalies_after_baseline self now tm s e bm lg)))"
  shows "x \<in> set lg \<or> fst x = ERROR"
proof -
  have l24: "\<not> length bm < 24" using assms(1) by simp
  from assms(2) show ?thesis
    unfolding detect_anomalies_after_baseline_def Let_def case_prod_beta
    by (auto simp: l24 split: sum.splits dest!: check_error_rate_log dest: collect_log)
qed

text \<open>
  C6, as amended. On a baseline shorter than 24 samples the detection returns the empty
  list and logs the warning \<^verbatim>\<open>Insufficient data for anomaly detection\<close>; on a
  sufficient baseline every record it adds to the log is an error record, so the warning
  is not logged. The returned value is the same empty list that a sufficient baseline
  without anomalies gives: the two outcomes differ in the log only.
\<close>

theorem insufficient_baseline_only_logged:
  "(length baseline_metrics < 24 \<longrightarrow>
      detect_anomalies_from_baseline self now threshold_multiplier start_time end_time
        baseline_metrics lg =
      ([], lg @ [(WARNING, ''Insufficient data for anomaly detection'')])) \<and>
   (24 \<le> length baseline_metrics \<longrightarrow>
      (\<forall>x \<in> set (snd (detect_anomalies_from_baseline self now threshold_multiplier start_time
                        end_time baseline_metrics lg)).
          x \<in> set lg \<or> fst x = ERROR))"
proof (intro conjI impI ballI)
  assume "length baseline_metrics < 24"
  then show "detect_anomalies_from_baseline self now threshold_multiplier start_time end_time
        baseline_metrics lg =
      ([], lg @ [(WARNING, ''Insufficient data for anomaly detection'')])"
    by (simp add: detect_anomalies_from_baseline_def after_baseline_short)
next
  fix x
  assume s: "24 \<le> length baseline_metrics"
    and x: "x \<in> set (snd (detect_anomalies_from_baseline self now threshold_multiplier start_time
                        end_time baseline_metrics lg))"
  obtain a l r where t: "detect_anomalies_after_baseline self now threshold_multiplier start_time
      end_time baseline_metrics lg = (a, l, r)"
    by (cases "detect_anomalies_after_baseline self now threshold_multiplier start_time
      end_time baseline_metrics lg") auto
  have "r = None"
    using after_baseline_no_raise [of self now threshold_multiplier start_time end_time
        baseline_metrics lg] t by simp
  with x t have "x \<in> set l" by (simp add: detect_anomalies_from_baseline_def)
  with after_baseline_log [OF s, of x self now threshold_multiplier start_time end_time lg] t
  show "x \<in> set lg \<or> fst x = ERROR" by simp
qed

theorem insufficient_baseline_only_logged_witness:
  "detect_anomalies_from_baseline (monitor_of (table_source (\<lambda>_. Some 10) (\<lambda>_. Some 0)))
      0 2 0 (hours 1) (replicate 23 10) [] =
     ([], [(WARNING, ''Insufficient data for anomaly detection'')]) \<and>
   (WARNING, ''Insufficient data for anomaly detection'') \<notin>
     set (snd (detect_anomalies_from_baseline
                 (monitor_of (table_source (\<lambda>_. Some 10) (\<lambda>_. Some 0)))
                 0 2 0 (hours 1) (replicate 24 10) []))"
  using insufficient_baseline_only_logged
          [of "replicate 23 10" "monitor_of (table_source (\<lambda>_. Some 10) (\<lambda>_. Some 0))"
              0 2 0 "hours 1" "[]"]
        insufficient_baseline_only_logged
          [of "replicate 24 10" "monitor_of (table_source (\<lambda>_. Some 10) (\<lambda>_. Some 0))"
              0 2 0 "hours 1" "[]"]
  by auto

text \<open>
  C6 as stated fails: a baseline of 23 samples and a baseline of 24 samples that yields
  no anomaly return the same value, the empty list.
\<close>

theorem insufficient_baseline_distinct_counterexample:
  "fst (detect_anomalies_from_baseline (monitor_of (table_source (\<lambda>_. Some 10) (\<lambda>_. Some 0)))
          0 2 0 (hours 1) (replicate 23 10) []) = [] \<and>
   fst (detect_anomalies_from_baseline (monitor_of (table_source (\<lambda>_. Some 10) (\<lambda>_. Some 0)))
          0 2 0 (hours 1) (replicate 24 10) []) = []"
proof -
  have r: "replace_hour_start 0 = 0" by (simp add: replace_hour_start_def)
  have e: "\<And>self. baseline_error_rates self 0 (hours 1) = []"
    using error_rate_loop_empty_span [of _ 0] by simp
  show ?thesis
    by (simp add: from_baseline_anomalies r e check_high_usage_Nil error_rate_anomalies_def
          table_window value_or_zero_def mean_of_replicate stdev_of_replicate
          initial_metrics_def)
qed

section \<open>The size of the baselines\<close>

lemma days_7_neq_0: "days 7 \<noteq> 0"
  by (simp add: days_def)

lemma hours_succ_neq_0: "hours (1 + int k) \<noteq> 0"
  by (simp add: hours_def)

lemma hours_succ_neq_days: "k < 167 \<Longrightarrow> hours (1 + int k) \<noteq> days 7"
  by (simp add: hours_def days_def)

lemma sparse_window_first:
  "window_metrics sparse_monitor 0 =
     initial_metrics\<lparr>total_invocations := 168000, total_errors := 0, success_rate := Some 100\<rparr>"
  using days_7_neq_0 [symmetric]
  by (simp add: sparse_monitor_def table_window value_or_zero_def)

lemma sparse_window_rest:
  "t \<noteq> 0 \<Longrightarrow> t \<noteq> days 7 \<Longrightarrow>
   window_metrics sparse_monitor t = initial_metrics\<lparr>success_rate := Some 0\<rparr>"
  by (simp add: sparse_monitor_def table_window value_or_zero_def initial_metrics_def)

lemma sparse_window_current:
  "window_metrics sparse_monitor (days 7) =
     initial_metrics\<lparr>total_invocations := 10, total_errors := 5, success_rate := Some 50\<rparr>"
  using days_7_neq_0
  by (simp add: sparse_monitor_def table_window value_or_zero_def)

lemma sparse_baseline:
  "map (\<lambda>k. total_invocations (window_metrics sparse_monitor (hours (int k)))) [0..<168]
     = 168000 # replicate 167 0"
proof -
  have "map (\<lambda>k. total_invocations (window_metrics sparse_monitor (hours (int (Suc k)))))
          [0..<167] = replicate 167 0"
    by (rule map_upt_const)
       (simp add: sparse_window_rest hours_succ_neq_0 hours_succ_neq_days initial_metrics_def)
  moreover have "[0..<168] = 0 # map Suc [0..<167]"
    using upt_0_Suc_map [of 167] by simp
  moreover have "hours (int 0) = 0" by (simp add: hours_def)
  ultimately show ?thesis
    using sparse_window_first by (simp add: comp_def initial_metrics_def)
qed

lemma sparse_error_rates: "baseline_error_rates sparse_monitor 0 (days 7) = [0]"
proof -
  have r: "map (\<lambda>k. window_error_rate sparse_monitor (hours (int (Suc k)))) [0..<166]
          = replicate 166 []"
    by (rule map_upt_const)
       (simp add: window_error_rate_def sparse_window_rest hours_succ_neq_0 hours_succ_neq_days
          initial_metrics_def)
  have u: "[0..<167] = 0 # map Suc [0..<166]"
    using upt_0_Suc_map [of 166] by simp
  have f: "window_error_rate sparse_monitor (hours (int 0)) = [0]"
    by (simp add: hours_def window_error_rate_def sparse_window_first initial_metrics_def)
  have "concat (map (\<lambda>k. window_error_rate sparse_monitor (0 + hours (int k))) [0..<167]) = [0]"
    unfolding u using r f by (simp add: comp_def)
  then show ?thesis
    by (simp only: baseline_error_rates_def days_hours_167 error_rate_loop_unroll fst_conv
          append_Nil)
qed

lemma check_high_usage_below_mean:
  assumes "total_invocations cur \<le> m" and "0 \<le> tm"
  shows "check_high_usage cur (m + tm * stdev_of bm) m' chs [] = []"
proof -
  have "0 \<le> tm * stdev_of bm" using assms(2) stdev_of_nonneg by simp
  then show ?thesis using assms(1) by (simp add: check_high_usage_def)
qed

text \<open>
  C1, as amended. An anomaly of either kind is appended only when the baseline of
  invocation counts has at least 24 samples; with fewer the detection returns no anomaly
  at all. A \<^verbatim>\<open>high_error_rate\<close> anomaly is judged against the baseline of error rates,
  which has to be non-empty only: one sample is enough.
\<close>

theorem anomaly_needs_invocation_baseline:
  "(length baseline_metrics < 24 \<longrightarrow>
      fst (detect_anomalies_from_baseline self now threshold_multiplier start_time end_time
             baseline_metrics lg) = []) \<and>
   (\<forall>a \<in> set (fst (detect_anomalies_from_baseline self now threshold_multiplier start_time
                      end_time baseline_metrics lg)).
       24 \<le> length baseline_metrics \<and>
       (type a = ''high_usage'' \<or> type a = ''high_error_rate'') \<and>
       (type a = ''high_error_rate'' \<longrightarrow>
          1 \<le> length (baseline_error_rates self start_time end_time)))"
  by (auto simp: from_baseline_anomalies check_high_usage_def error_rate_anomalies_def
        Suc_le_eq split: if_splits)

theorem anomaly_needs_invocation_baseline_witness:
  "24 \<le> length (replicate 24 (10::real)) \<and>
   length (baseline_error_rates rising_errors_monitor 0 (hours 2)) = 1 \<and>
   fst (detect_anomalies_from_baseline rising_errors_monitor (hours 1) 2 0 (hours 2)
          (replicate 24 10) []) =
     [\<lparr> type = ''high_error_rate'', current_value = 50, threshold = 0, baseline_mean = 0,
         timestamp = hours 1, severity = ''high'' \<rparr>]"
proof -
  have s: "hours 2 - hours 1 = 0 + hours (int 1)" by (simp add: hours_def)
  have n: "hours 1 \<noteq> 0" by (simp add: hours_def)
  have w0: "window_error_rate rising_errors_monitor (hours 0) = [0]"
    by (simp add: hours_def window_error_rate_def rising_errors_monitor_def table_window
          value_or_zero_def initial_metrics_def)
  have e: "baseline_error_rates rising_errors_monitor 0 (hours 2) = [0]"
    by (simp only: baseline_error_rates_def s error_rate_loop_unroll fst_conv append_Nil)
       (simp add: w0)
  have r: "replace_hour_start (hours 1) = hours 1"
    by (simp add: replace_hour_start_def hours_def)
  have c: "window_metrics rising_errors_monitor (hours 1) =
      initial_metrics\<lparr>total_invocations := 10, total_errors := 5, success_rate := Some 50\<rparr>"
    using n by (simp add: rising_errors_monitor_def table_window value_or_zero_def)
  have m0: "mean_of [0] = 0" by (simp add: mean_of_def)
  show ?thesis
    using anomaly_needs_invocation_baseline
            [of "replicate 24 10" rising_errors_monitor "hours 1" 2 0 "hours 2" "[]"]
    by (simp add: from_baseline_anomalies r c e check_high_usage_def error_rate_anomalies_def
          error_rate_of_def error_threshold_of_def error_stdev_def m0
          mean_of_replicate stdev_of_replicate initial_metrics_def)
qed

text \<open>
  C1 as stated fails: in this run the baseline of error rates holds a single sample, and
  the \<^verbatim>\<open>high_error_rate\<close> anomaly judged against it is returned.
\<close>

theorem short_error_baseline_counterexample:
  "fst (error_rate_loop sparse_monitor (days 7 - days 7) (days 7 - hours 1) [] []) = [0] \<and>
   fst (detect_anomalies sparse_monitor (days 7) (days 7) 2) =
     [\<lparr> type = ''high_error_rate'', current_value = 50, threshold = 0, baseline_mean = 0,
         timestamp = days 7, severity = ''high'' \<rparr>]"
proof -
  have a: "fst (error_rate_loop sparse_monitor (days 7 - days 7) (days 7 - hours 1) [] []) = [0]"
    using sparse_error_rates by (simp add: baseline_error_rates_def)
  have m: "mean_of (168000 # replicate 167 0) = 1000"
    by (simp add: mean_of_def sum_list_replicate)
  have h: "check_high_usage (window_metrics sparse_monitor (days 7))
             (mean_of (168000 # replicate 167 0) + 2 * stdev_of (168000 # replicate 167 0))
             (mean_of (168000 # replicate 167 0)) (days 7) [] = []"
    by (rule check_high_usage_below_mean) (simp_all add: m sparse_window_current initial_metrics_def)
  have "fst (detect_anomalies sparse_monitor (days 7) (days 7) 2) =
     [\<lparr> type = ''high_error_rate'', current_value = 50, threshold = 0, baseline_mean = 0,
         timestamp = days 7, severity = ''high'' \<rparr>]"
    by (simp add: detect_anomalies_unroll sparse_baseline from_baseline_anomalies
          replace_hour_start_days h)
       (simp add: sparse_window_current error_rate_anomalies_def sparse_error_rates
          error_rate_of_def error_threshold_of_def error_stdev_def mean_of_def
          initial_metrics_def)
  with a show ?thesis by simp
qed

end
